theory Spec2Isabelle
  imports Main "HOL-Library.AList"
begin

section \<open>The pandas dataframe agent toolkit (agent_toolkits/pandas/base.py)\<close>

text \<open>
  A shallow embedding of \<^verbatim>\<open>base.py\<close>: the seven functions of the module, in the order of
  the file. Python's \<^verbatim>\<open>None\<close> is \<open>None\<close> of an option type, a raised exception is the
  \<open>Inl\<close> of a sum, the module-level pandas option is a field of an explicit environment
  that every function receives and returns.
\<close>

subsection \<open>Values and errors\<close>

text \<open>
  The argument \<^verbatim>\<open>df: Any\<close>. The code asks two things of it: \<^verbatim>\<open>isinstance(df, list)\<close> and
  \<^verbatim>\<open>isinstance(df, pd.DataFrame)\<close>. \<open>'d\<close> is the content of a dataframe, which the code
  never inspects. \<open>PyOther\<close> is any object that is neither a list nor a dataframe (a
  tuple, a string, \<^verbatim>\<open>None\<close>, ...).
\<close>

datatype 'd pyobj = DataFrame 'd | PyList "'d pyobj list" | PyOther

text \<open>
  The exceptions of the module, one constructor for each distinct \<^verbatim>\<open>raise\<close>, named as in
  section 7 of the specification:
  \<^item> \<open>MissingDependency\<close>: \<^verbatim>\<open>ImportError("pandas package not found, ...")\<close>;
  \<^item> \<open>ConfigurationConflict\<close>:
    \<^verbatim>\<open>ValueError("If suffix is specified, include_df_in_prompt should not be.")\<close>;
  \<^item> \<open>TypeMismatch\<close>: \<^verbatim>\<open>ValueError(f"Expected pandas object, got {type(df)}")\<close>;
  \<^item> \<open>UnsupportedOption\<close>: \<^verbatim>\<open>ValueError("`input_variables` is not supported at the moment.")\<close>;
  \<^item> \<open>UnsupportedProtocol\<close>: \<^verbatim>\<open>ValueError(f"Agent type {agent_type} not supported at the moment.")\<close>;
  \<^item> \<open>FormatError\<close>: whatever \<^verbatim>\<open>str.format\<close> raises on a template it cannot fill
    (\<^verbatim>\<open>KeyError\<close>, \<^verbatim>\<open>IndexError\<close>, \<^verbatim>\<open>ValueError\<close>).
\<close>

datatype error =
    MissingDependency
  | ConfigurationConflict
  | TypeMismatch
  | UnsupportedOption
  | UnsupportedProtocol
  | FormatError

text \<open>
  The environment of a call: whether \<^verbatim>\<open>import pandas\<close> succeeds, and the value of the pandas
  option \<^verbatim>\<open>display.max_columns\<close> (\<open>None\<close> is Python's \<^verbatim>\<open>None\<close>, no limit).
\<close>

record env =
  pandas_installed :: bool
  display_max_columns :: "int option"

text \<open>
  What \<^verbatim>\<open>base.py\<close> imports and the model takes as parameters: the nine template constants
  of \<^verbatim>\<open>pandas/prompt.py\<close>; the rendering \<^verbatim>\<open>d.head(n).to_markdown()\<close> of a dataframe, a total
  function (section 3 of the specification requires both operations of a Dataset); and
  \<^verbatim>\<open>template.format(**kwargs)\<close>, which is \<open>None\<close> when Python raises.
\<close>

record 'd lib =
  PREFIX :: string
  MULTI_DF_PREFIX :: string
  SUFFIX_NO_DF :: string
  SUFFIX_WITH_DF :: string
  SUFFIX_WITH_MULTI_DF :: string
  PREFIX_FUNCTIONS :: string
  MULTI_DF_PREFIX_FUNCTIONS :: string
  FUNCTIONS_WITH_DF :: string
  FUNCTIONS_WITH_MULTI_DF :: string
  head_to_markdown :: "'d \<Rightarrow> int \<Rightarrow> string"
  str_format :: "string \<Rightarrow> (string \<times> string) list \<Rightarrow> string option"

subsection \<open>Python primitives\<close>

text \<open>The truth value of an \<^verbatim>\<open>Optional[bool]\<close>: \<^verbatim>\<open>None\<close> and \<^verbatim>\<open>False\<close> are falsy.\<close>

definition truthy :: "bool option \<Rightarrow> bool" where
  "truthy b = (b = Some True)"

text \<open>\<^verbatim>\<open>str(n)\<close> of a natural number: its decimal digits.\<close>

definition digit_char :: "nat \<Rightarrow> char" where
  "digit_char d = ''0123456789'' ! d"

fun str_nat :: "nat \<Rightarrow> string" where
  "str_nat n = (if n < 10 then [digit_char n] else str_nat (n div 10) @ [digit_char (n mod 10)])"

declare str_nat.simps [simp del]

text \<open>\<^verbatim>\<open>sep.join(xs)\<close>.\<close>

fun join :: "string \<Rightarrow> string list \<Rightarrow> string" where
  "join sep [] = []"
| "join sep [x] = x"
| "join sep (x # y # ys) = x @ sep @ join sep (y # ys)"

text \<open>
  \<^verbatim>\<open>template.format(**kwargs)\<close> as a step that may raise.
\<close>

definition format :: "'d lib \<Rightarrow> string \<Rightarrow> (string \<times> string) list \<Rightarrow> error + string" where
  "format lb template kwargs =
     (case str_format lb template kwargs of None \<Rightarrow> Inl FormatError | Some s \<Rightarrow> Inr s)"

subsection \<open>Collaborators: tools, prompts, agents\<close>

text \<open>
  Modelled from the spec: the execution tool (\<^verbatim>\<open>PythonAstREPLTool\<close>, section 6: "accepts a
  name to Dataset variable-binding mapping and yields a tool object"). The mapping is a
  Python dict, here an association list in insertion order, written with
  \<open>AList.update\<close>, which replaces the value of a key already there and appends a new key.
  \<open>BaseTool\<close> is a tool supplied by the caller, opaque to the module.
\<close>

datatype ('d, 't) tool = PythonAstREPLTool "(string \<times> 'd) list" | BaseTool 't

text \<open>
  Modelled from the spec: the named-slot template of the text-action protocol (section 3,
  PromptArtifact (a): "a named-slot template with some slots pre-filled (partial) and
  others left open"). \<^verbatim>\<open>ZeroShotAgent.create_prompt\<close> records what it is given;
  \<^verbatim>\<open>partial\<close> fills the named slots, which are then no longer open.
\<close>

record ('d, 't) prompt_template =
  template_tools :: "('d, 't) tool list"
  template_prefix :: string
  template_suffix :: string
  open_variables :: "string list"
  partial_variables :: "(string \<times> string) list"

definition create_prompt ::
  "('d, 't) tool list \<Rightarrow> string \<Rightarrow> string \<Rightarrow> string list \<Rightarrow> ('d, 't) prompt_template" where
  "create_prompt tls prefix suffix input_variables =
     \<lparr>template_tools = tls, template_prefix = prefix, template_suffix = suffix,
      open_variables = input_variables, partial_variables = []\<rparr>"

definition partial ::
  "('d, 't) prompt_template \<Rightarrow> (string \<times> string) list \<Rightarrow> ('d, 't) prompt_template" where
  "partial p kwargs =
     p\<lparr>open_variables := filter (\<lambda>v. v \<notin> fst ` set kwargs) (open_variables p),
       partial_variables := fold (\<lambda>(k, v). AList.update k v) kwargs (partial_variables p)\<rparr>"

text \<open>
  Modelled from the spec: the three agent constructions of section 4.4
  (\<^verbatim>\<open>create_react_agent\<close>, \<^verbatim>\<open>create_openai_functions_agent\<close>, \<^verbatim>\<open>create_openai_tools_agent\<close>),
  each a constructor that keeps the language model, the tool list and the prompt it was
  called with. The prompt of the two function-call protocols is PromptArtifact (b), "a
  single flattened system-message string": the content of the \<^verbatim>\<open>SystemMessage\<close> handed to
  \<^verbatim>\<open>OpenAIFunctionsAgent.create_prompt\<close>.
\<close>

datatype ('d, 't, 'l) agent =
    ReactAgent 'l "('d, 't) tool list" "('d, 't) prompt_template"
  | OpenAIFunctionsAgent 'l "('d, 't) tool list" string
  | OpenAIToolsAgent 'l "('d, 't) tool list" string

fun agent_tools :: "('d, 't, 'l) agent \<Rightarrow> ('d, 't) tool list" where
  "agent_tools (ReactAgent l tls p) = tls"
| "agent_tools (OpenAIFunctionsAgent l tls m) = tls"
| "agent_tools (OpenAIToolsAgent l tls m) = tls"

text \<open>
  Modelled from the spec: the execution-loop controller
  (\<^verbatim>\<open>AgentExecutor.from_agent_and_tools\<close>, section 6: "accepts (agent, tools, execution
  config) and yields an invocable artifact"). \<open>'x\<close> is the execution configuration that the
  entry point forwards unmodified: \<^verbatim>\<open>callback_manager\<close>, \<^verbatim>\<open>verbose\<close>,
  \<^verbatim>\<open>return_intermediate_steps\<close>, \<^verbatim>\<open>max_iterations\<close>, \<^verbatim>\<open>max_execution_time\<close>,
  \<^verbatim>\<open>early_stopping_method\<close> and \<^verbatim>\<open>agent_executor_kwargs\<close>.
\<close>

record ('d, 't, 'l, 'x) agent_executor =
  agent :: "('d, 't, 'l) agent"
  tools :: "('d, 't) tool list"
  executor_config :: 'x

subsection \<open>Shared steps\<close>

text \<open>
  The first statement of both \<^verbatim>\<open>_get_prompt_and_tools\<close> and
  \<^verbatim>\<open>_get_functions_prompt_and_tools\<close>:
  \<^verbatim>\<open>try: import pandas as pd; pd.set_option("display.max_columns", None)\<close>
  \<^verbatim>\<open>except ImportError: raise ImportError(...)\<close>.
\<close>

definition import_pandas :: "env \<Rightarrow> env \<times> (error + unit)" where
  "import_pandas e =
     (if pandas_installed e then (e\<lparr>display_max_columns := None\<rparr>, Inr ())
      else (e, Inl MissingDependency))"

text \<open>
  \<^verbatim>\<open>for item in df: if not isinstance(item, pd.DataFrame): raise ValueError(...)\<close>.
  The loop raises at the first item that is not a dataframe; if it ends, every item is
  one, and the result is the list of their contents.
\<close>

fun check_items :: "'d pyobj list \<Rightarrow> error + 'd list" where
  "check_items [] = Inr []"
| "check_items (DataFrame d # xs) =
     (case check_items xs of Inl e \<Rightarrow> Inl e | Inr ds \<Rightarrow> Inr (d # ds))"
| "check_items (x # xs) = Inl TypeMismatch"

text \<open>
  \<^verbatim>\<open>df_locals = {}\<close>
  \<^verbatim>\<open>for i, dataframe in enumerate(dfs): df_locals[f"df{i + 1}"] = dataframe\<close>.
  \<open>i\<close> is the index of the next dataframe, \<open>acc\<close> the dict built so far.
\<close>

fun bind_dfs :: "nat \<Rightarrow> 'd list \<Rightarrow> (string \<times> 'd) list \<Rightarrow> (string \<times> 'd) list" where
  "bind_dfs i [] acc = acc"
| "bind_dfs i (dataframe # dfs) acc =
     bind_dfs (i + 1) dfs (AList.update (''df'' @ str_nat (i + 1)) dataframe acc)"

definition df_locals :: "'d list \<Rightarrow> (string \<times> 'd) list" where
  "df_locals dfs = bind_dfs 0 dfs []"

text \<open>
  \<^verbatim>\<open>"\n\n".join([d.head(number_of_head_rows).to_markdown() for d in dfs])\<close>.
\<close>

definition dfs_head :: "'d lib \<Rightarrow> 'd list \<Rightarrow> int \<Rightarrow> string" where
  "dfs_head lb dfs number_of_head_rows =
     join [CHR 0x0A, CHR 0x0A] (map (\<lambda>d. head_to_markdown lb d number_of_head_rows) dfs)"

subsection \<open>The text-action protocol\<close>

text \<open>
  \<^verbatim>\<open>_get_multi_prompt\<close>, lines 42 to 50: the suffix in use and the local
  \<^verbatim>\<open>include_dfs_head\<close>.
\<close>

definition multi_suffix_to_use :: "'d lib \<Rightarrow> string option \<Rightarrow> bool option \<Rightarrow> string \<times> bool" where
  "multi_suffix_to_use lb suffix include_df_in_prompt =
     (case suffix of
        Some s \<Rightarrow> (s, True)
      | None \<Rightarrow>
          if truthy include_df_in_prompt then (SUFFIX_WITH_MULTI_DF lb, True)
          else (SUFFIX_NO_DF lb, False))"

text \<open>\<^verbatim>\<open>_get_multi_prompt\<close>, lines 51 to 54: the input-variable list after the default.\<close>

definition multi_input_variables :: "string list option \<Rightarrow> bool \<Rightarrow> string list" where
  "multi_input_variables input_variables include_dfs_head =
     (case input_variables of
        Some vs \<Rightarrow> vs
      | None \<Rightarrow>
          [''input'', ''agent_scratchpad'', ''num_dfs'']
          @ (if include_dfs_head then [''dfs_head''] else []))"

definition get_multi_prompt ::
  "'d lib \<Rightarrow> 'd list \<Rightarrow> string option \<Rightarrow> string option \<Rightarrow> string list option \<Rightarrow> bool option
    \<Rightarrow> int \<Rightarrow> ('d, 't) tool list \<Rightarrow> ('d, 't) prompt_template \<times> ('d, 't) tool list" where
  "get_multi_prompt lb dfs prefix suffix input_variables include_df_in_prompt
      number_of_head_rows extra_tools =
     (let num_dfs = length dfs;
          (suffix_to_use, include_dfs_head) = multi_suffix_to_use lb suffix include_df_in_prompt;
          input_variables = multi_input_variables input_variables include_dfs_head;
          prefix = (case prefix of None \<Rightarrow> MULTI_DF_PREFIX lb | Some p \<Rightarrow> p);
          tls = PythonAstREPLTool (df_locals dfs) # extra_tools;
          prompt = create_prompt tls prefix suffix_to_use input_variables;
          partial_prompt = partial prompt [];
          partial_prompt =
            (if ''dfs_head'' \<in> set input_variables
             then partial partial_prompt
                    [(''num_dfs'', str_nat num_dfs),
                     (''dfs_head'', dfs_head lb dfs number_of_head_rows)]
             else partial_prompt);
          partial_prompt =
            (if ''num_dfs'' \<in> set input_variables
             then partial partial_prompt [(''num_dfs'', str_nat num_dfs)]
             else partial_prompt)
      in (partial_prompt, tls))"

text \<open>\<^verbatim>\<open>_get_single_prompt\<close>, lines 87 to 95 and lines 97 to 100.\<close>

definition single_suffix_to_use :: "'d lib \<Rightarrow> string option \<Rightarrow> bool option \<Rightarrow> string \<times> bool" where
  "single_suffix_to_use lb suffix include_df_in_prompt =
     (case suffix of
        Some s \<Rightarrow> (s, True)
      | None \<Rightarrow>
          if truthy include_df_in_prompt then (SUFFIX_WITH_DF lb, True)
          else (SUFFIX_NO_DF lb, False))"

definition single_input_variables :: "string list option \<Rightarrow> bool \<Rightarrow> string list" where
  "single_input_variables input_variables include_df_head =
     (case input_variables of
        Some vs \<Rightarrow> vs
      | None \<Rightarrow>
          [''input'', ''agent_scratchpad'']
          @ (if include_df_head then [''df_head''] else []))"

definition get_single_prompt ::
  "'d lib \<Rightarrow> 'd \<Rightarrow> string option \<Rightarrow> string option \<Rightarrow> string list option \<Rightarrow> bool option
    \<Rightarrow> int \<Rightarrow> ('d, 't) tool list \<Rightarrow> ('d, 't) prompt_template \<times> ('d, 't) tool list" where
  "get_single_prompt lb df prefix suffix input_variables include_df_in_prompt
      number_of_head_rows extra_tools =
     (let (suffix_to_use, include_df_head) = single_suffix_to_use lb suffix include_df_in_prompt;
          input_variables = single_input_variables input_variables include_df_head;
          prefix = (case prefix of None \<Rightarrow> PREFIX lb | Some p \<Rightarrow> p);
          tls = PythonAstREPLTool [(''df'', df)] # extra_tools;
          prompt = create_prompt tls prefix suffix_to_use input_variables;
          partial_prompt = partial prompt [];
          partial_prompt =
            (if ''df_head'' \<in> set input_variables
             then partial partial_prompt
                    [(''df_head'', head_to_markdown lb df number_of_head_rows)]
             else partial_prompt)
      in (partial_prompt, tls))"

definition get_prompt_and_tools ::
  "env \<Rightarrow> 'd lib \<Rightarrow> 'd pyobj \<Rightarrow> string option \<Rightarrow> string option \<Rightarrow> string list option
    \<Rightarrow> bool option \<Rightarrow> int \<Rightarrow> ('d, 't) tool list
    \<Rightarrow> env \<times> (error + ('d, 't) prompt_template \<times> ('d, 't) tool list)" where
  "get_prompt_and_tools e lb df prefix suffix input_variables include_df_in_prompt
      number_of_head_rows extra_tools =
     (case import_pandas e of
        (e', Inl err) \<Rightarrow> (e', Inl err)
      | (e', Inr u) \<Rightarrow>
          (e',
           if include_df_in_prompt \<noteq> None \<and> suffix \<noteq> None then Inl ConfigurationConflict
           else
             (case df of
                PyList items \<Rightarrow>
                  (case check_items items of
                     Inl err \<Rightarrow> Inl err
                   | Inr dfs \<Rightarrow>
                       Inr (get_multi_prompt lb dfs prefix suffix input_variables
                              include_df_in_prompt number_of_head_rows extra_tools))
              | DataFrame d \<Rightarrow>
                  Inr (get_single_prompt lb d prefix suffix input_variables
                         include_df_in_prompt number_of_head_rows extra_tools)
              | PyOther \<Rightarrow> Inl TypeMismatch)))"

subsection \<open>The function-call protocols\<close>

definition get_functions_single_prompt ::
  "'d lib \<Rightarrow> 'd \<Rightarrow> string option \<Rightarrow> string option \<Rightarrow> bool option \<Rightarrow> int
    \<Rightarrow> error + string \<times> ('d, 't) tool list" where
  "get_functions_single_prompt lb df prefix suffix include_df_in_prompt number_of_head_rows =
     (case
        (case suffix of
           Some s \<Rightarrow>
             if truthy include_df_in_prompt
             then format lb s [(''df_head'', head_to_markdown lb df number_of_head_rows)]
             else Inr s
         | None \<Rightarrow>
             if truthy include_df_in_prompt
             then format lb (FUNCTIONS_WITH_DF lb)
                    [(''df_head'', head_to_markdown lb df number_of_head_rows)]
             else Inr [])
      of
        Inl err \<Rightarrow> Inl err
      | Inr suffix_to_use \<Rightarrow>
          (let prefix = (case prefix of None \<Rightarrow> PREFIX_FUNCTIONS lb | Some p \<Rightarrow> p);
               tls = [PythonAstREPLTool [(''df'', df)]]
           in Inr (prefix @ suffix_to_use, tls)))"

definition get_functions_multi_prompt ::
  "'d lib \<Rightarrow> 'd list \<Rightarrow> string option \<Rightarrow> string option \<Rightarrow> bool option \<Rightarrow> int
    \<Rightarrow> error + string \<times> ('d, 't) tool list" where
  "get_functions_multi_prompt lb dfs prefix suffix include_df_in_prompt number_of_head_rows =
     (case
        (case suffix of
           Some s \<Rightarrow>
             if truthy include_df_in_prompt
             then format lb s [(''dfs_head'', dfs_head lb dfs number_of_head_rows)]
             else Inr s
         | None \<Rightarrow>
             if truthy include_df_in_prompt
             then format lb (FUNCTIONS_WITH_MULTI_DF lb)
                    [(''dfs_head'', dfs_head lb dfs number_of_head_rows)]
             else Inr [])
      of
        Inl err \<Rightarrow> Inl err
      | Inr suffix_to_use \<Rightarrow>
          (let prefix = (case prefix of None \<Rightarrow> MULTI_DF_PREFIX_FUNCTIONS lb | Some p \<Rightarrow> p)
           in case format lb prefix [(''num_dfs'', str_nat (length dfs))] of
                Inl err \<Rightarrow> Inl err
              | Inr prefix \<Rightarrow>
                  (let tls = [PythonAstREPLTool (df_locals dfs)]
                   in Inr (prefix @ suffix_to_use, tls))))"

definition get_functions_prompt_and_tools ::
  "env \<Rightarrow> 'd lib \<Rightarrow> 'd pyobj \<Rightarrow> string option \<Rightarrow> string option \<Rightarrow> string list option
    \<Rightarrow> bool option \<Rightarrow> int \<Rightarrow> env \<times> (error + string \<times> ('d, 't) tool list)" where
  "get_functions_prompt_and_tools e lb df prefix suffix input_variables include_df_in_prompt
      number_of_head_rows =
     (case import_pandas e of
        (e', Inl err) \<Rightarrow> (e', Inl err)
      | (e', Inr u) \<Rightarrow>
          (e',
           if input_variables \<noteq> None then Inl UnsupportedOption
           else if include_df_in_prompt \<noteq> None \<and> suffix \<noteq> None then Inl ConfigurationConflict
           else
             (case df of
                PyList items \<Rightarrow>
                  (case check_items items of
                     Inl err \<Rightarrow> Inl err
                   | Inr dfs \<Rightarrow>
                       get_functions_multi_prompt lb dfs prefix suffix
                         include_df_in_prompt number_of_head_rows)
              | DataFrame d \<Rightarrow>
                  get_functions_single_prompt lb d prefix suffix
                    include_df_in_prompt number_of_head_rows
              | PyOther \<Rightarrow> Inl TypeMismatch)))"

subsection \<open>The entry point\<close>

text \<open>
  \<^verbatim>\<open>AgentType\<close> is a string enumeration; the docstring of the entry point gives the three
  values: "openai-tools", "openai-functions", "zero-shot-react-description".
\<close>

definition ZERO_SHOT_REACT_DESCRIPTION :: string where
  "ZERO_SHOT_REACT_DESCRIPTION = ''zero-shot-react-description''"

definition OPENAI_FUNCTIONS :: string where
  "OPENAI_FUNCTIONS = ''openai-functions''"

text \<open>
  The keyword arguments of \<^verbatim>\<open>create_pandas_dataframe_agent\<close> that the module reads, and
  \<open>loop_config\<close>, the ones it forwards to the execution loop.
\<close>

record ('d, 't, 'x) agent_args =
  agent_type :: string
  prefix :: "string option"
  suffix :: "string option"
  input_variables :: "string list option"
  include_df_in_prompt :: "bool option"
  number_of_head_rows :: int
  extra_tools :: "('d, 't) tool list"
  loop_config :: 'x

text \<open>The defaults of the signature (lines 284 to 297).\<close>

definition default_args :: "'x \<Rightarrow> ('d, 't, 'x) agent_args" where
  "default_args x =
     \<lparr>agent_type = ZERO_SHOT_REACT_DESCRIPTION, prefix = None, suffix = None,
      input_variables = None, include_df_in_prompt = Some True, number_of_head_rows = 5,
      extra_tools = [], loop_config = x\<rparr>"

text \<open>
  Modelled from the spec: \<^verbatim>\<open>AgentExecutor.from_agent_and_tools\<close> (section 4.4, final step:
  "wrap the constructed agent and its full tool list into an execution-loop controller",
  the configuration "passed through unmodified").
\<close>

definition from_agent_and_tools ::
  "('d, 't, 'l) agent \<Rightarrow> ('d, 't) tool list \<Rightarrow> 'x \<Rightarrow> ('d, 't, 'l, 'x) agent_executor" where
  "from_agent_and_tools ag tls x = \<lparr>agent = ag, tools = tls, executor_config = x\<rparr>"

definition create_pandas_dataframe_agent ::
  "env \<Rightarrow> 'd lib \<Rightarrow> 'l \<Rightarrow> 'd pyobj \<Rightarrow> ('d, 't, 'x) agent_args
    \<Rightarrow> env \<times> (error + ('d, 't, 'l, 'x) agent_executor)" where
  "create_pandas_dataframe_agent e lb llm df a =
     (if agent_type a = ZERO_SHOT_REACT_DESCRIPTION then
        (case get_prompt_and_tools e lb df (prefix a) (suffix a) (input_variables a)
                (include_df_in_prompt a) (number_of_head_rows a) (extra_tools a) of
           (e', Inl err) \<Rightarrow> (e', Inl err)
         | (e', Inr (prompt, tls)) \<Rightarrow>
             (e', Inr (from_agent_and_tools (ReactAgent llm tls prompt) tls (loop_config a))))
      else if agent_type a = OPENAI_FUNCTIONS then
        (case get_functions_prompt_and_tools e lb df (prefix a) (suffix a) (input_variables a)
                (include_df_in_prompt a) (number_of_head_rows a) of
           (e', Inl err) \<Rightarrow> (e', Inl err)
         | (e', Inr (prompt, base_tools)) \<Rightarrow>
             (let tls = base_tools @ extra_tools a
              in (e', Inr (from_agent_and_tools (OpenAIFunctionsAgent llm tls prompt) tls
                             (loop_config a)))))
      else if agent_type a = ''openai-tools'' then
        (case get_functions_prompt_and_tools e lb df (prefix a) (suffix a) (input_variables a)
                (include_df_in_prompt a) (number_of_head_rows a) of
           (e', Inl err) \<Rightarrow> (e', Inl err)
         | (e', Inr (prompt, base_tools)) \<Rightarrow>
             (let tls = base_tools @ extra_tools a
              in (e', Inr (from_agent_and_tools (OpenAIToolsAgent llm tls prompt) tls
                             (loop_config a)))))
      else (e, Inl UnsupportedProtocol))"

subsection \<open>An instance of the parameters\<close>

text \<open>
  A small instance of the parameters, on which the functions above are run: a dataframe
  is the list of its rendered rows, \<^verbatim>\<open>head(n)\<close> keeps the first \<open>n\<close> rows (all but the last
  \<open>-n\<close> for a negative \<open>n\<close>), and \<open>fill_slots\<close> is the fragment of \<^verbatim>\<open>str.format\<close> that
  replaces each \<^verbatim>\<open>{name}\<close> by the keyword argument of that name and fails on a name that
  is not given and on an unbalanced brace.
\<close>

fun fill_slots :: "(string \<times> string) list \<Rightarrow> string option \<Rightarrow> string \<Rightarrow> string option" where
  "fill_slots kwargs None [] = Some []"
| "fill_slots kwargs (Some name) [] = None"
| "fill_slots kwargs None (c # cs) =
     (if c = CHR ''{'' then fill_slots kwargs (Some []) cs
      else if c = CHR ''}'' then None
      else map_option ((#) c) (fill_slots kwargs None cs))"
| "fill_slots kwargs (Some name) (c # cs) =
     (if c = CHR ''}'' then
        (case map_of kwargs name of
           None \<Rightarrow> None
         | Some v \<Rightarrow> map_option ((@) v) (fill_slots kwargs None cs))
      else fill_slots kwargs (Some (name @ [c])) cs)"

definition sample_lib :: "string list lib" where
  "sample_lib =
     \<lparr>PREFIX = ''Use df. '',
      MULTI_DF_PREFIX = ''Use {num_dfs} dfs. '',
      SUFFIX_NO_DF = ''Q: {input} {agent_scratchpad}'',
      SUFFIX_WITH_DF = ''Head: {df_head} Q: {input} {agent_scratchpad}'',
      SUFFIX_WITH_MULTI_DF = ''Heads: {dfs_head} Q: {input} {agent_scratchpad}'',
      PREFIX_FUNCTIONS = ''Use df.'',
      MULTI_DF_PREFIX_FUNCTIONS = ''Use {num_dfs} dfs.'',
      FUNCTIONS_WITH_DF = '' Head: {df_head}'',
      FUNCTIONS_WITH_MULTI_DF = '' Heads: {dfs_head}'',
      head_to_markdown =
        (\<lambda>d n. join ''|'' (if 0 \<le> n then take (nat n) d else take (length d - nat (- n)) d)),
      str_format = (\<lambda>template kwargs. fill_slots kwargs None template)\<rparr>"

definition sample_env :: env where
  "sample_env = \<lparr>pandas_installed = True, display_max_columns = Some 20\<rparr>"

definition sample_args :: "(string list, string, unit) agent_args" where
  "sample_args = default_args ()"

section \<open>Properties\<close>

subsection \<open>Auxiliary facts\<close>

lemmas prompt_defs =
  get_multi_prompt_def get_single_prompt_def multi_suffix_to_use_def multi_input_variables_def
  single_suffix_to_use_def single_input_variables_def create_prompt_def partial_def

lemmas functions_defs =
  get_functions_single_prompt_def get_functions_multi_prompt_def format_def

lemmas entry_defs =
  create_pandas_dataframe_agent_def get_prompt_and_tools_def get_functions_prompt_and_tools_def
  import_pandas_def from_agent_and_tools_def ZERO_SHOT_REACT_DESCRIPTION_def
  OPENAI_FUNCTIONS_def

lemmas sample_defs =
  sample_lib_def sample_env_def sample_args_def default_args_def truthy_def dfs_head_def
  df_locals_def digit_char_def Let_def

text \<open>The decimal rendering of a number determines the number.\<close>

lemma digit_char_inj: "a < 10 \<Longrightarrow> b < 10 \<Longrightarrow> digit_char a = digit_char b \<Longrightarrow> a = b"
proof -
  assume a: "a < 10" and b: "b < 10" and e: "digit_char a = digit_char b"
  have d: "distinct ''0123456789''" by simp
  have "a < length ''0123456789''" "b < length ''0123456789''" using a b by simp_all
  with d e show "a = b" unfolding digit_char_def by (simp only: nth_eq_iff_index_eq)
qed

lemma str_nat_neq_Nil: "str_nat n \<noteq> []"
  by (subst str_nat.simps) simp

lemma str_nat_inj: "str_nat m = str_nat n \<Longrightarrow> m = n"
proof (induction m arbitrary: n rule: str_nat.induct)
  case (1 m)
  show ?case
  proof (cases "m < 10")
    case m: True
    show ?thesis
    proof (cases "n < 10")
      case True
      with m 1 show ?thesis
        by (simp add: str_nat.simps [of m] str_nat.simps [of n] digit_char_inj)
    next
      case False
      with m "1.prems" show ?thesis
        by (simp add: str_nat.simps [of m] str_nat.simps [of n]
              str_nat_neq_Nil str_nat_neq_Nil [THEN not_sym])
    qed
  next
    case m: False
    show ?thesis
    proof (cases "n < 10")
      case True
      with m "1.prems" show ?thesis
        by (simp add: str_nat.simps [of m] str_nat.simps [of n]
              str_nat_neq_Nil str_nat_neq_Nil [THEN not_sym])
    next
      case False
      with m "1.prems" have q: "str_nat (m div 10) = str_nat (n div 10)"
        and r: "digit_char (m mod 10) = digit_char (n mod 10)"
        by (simp_all add: str_nat.simps [of m] str_nat.simps [of n])
      from q m have "m div 10 = n div 10" by (rule "1.IH" [rotated])
      moreover from r have "m mod 10 = n mod 10" by (simp add: digit_char_inj)
      ultimately show ?thesis by (metis div_mult_mod_eq)
    qed
  qed
qed

text \<open>
  The loop that fills \<^verbatim>\<open>df_locals\<close> never meets a key twice, so every assignment appends:
  the dict holds the pairs \<open>(df(j+1), dfs[j])\<close> in the order of \<open>dfs\<close>.
\<close>

lemma update_fresh: "k \<notin> fst ` set al \<Longrightarrow> AList.update k v al = al @ [(k, v)]"
  by (induction al) auto

lemma bind_dfs_append:
  "fst ` set acc \<subseteq> (\<lambda>j. ''df'' @ str_nat (j + 1)) ` {..<i} \<Longrightarrow>
   bind_dfs i dfs acc =
     acc @ map (\<lambda>(j, d). (''df'' @ str_nat (j + 1), d)) (zip [i..<i + length dfs] dfs)"
proof (induction dfs arbitrary: i acc)
  case Nil
  then show ?case by simp
next
  case (Cons d dfs)
  have fresh: "''df'' @ str_nat (i + 1) \<notin> fst ` set acc"
  proof
    assume "''df'' @ str_nat (i + 1) \<in> fst ` set acc"
    with Cons.prems obtain j
      where "j < i" "''df'' @ str_nat (i + 1) = ''df'' @ str_nat (j + 1)" by auto
    then show False using str_nat_inj by fastforce
  qed
  have upd: "AList.update (''df'' @ str_nat (i + 1)) d acc = acc @ [(''df'' @ str_nat (i + 1), d)]"
    using fresh by (rule update_fresh)
  have sub: "fst ` set (acc @ [(''df'' @ str_nat (i + 1), d)])
               \<subseteq> (\<lambda>j. ''df'' @ str_nat (j + 1)) ` {..<i + 1}"
    using Cons.prems by (auto simp: less_Suc_eq)
  have "bind_dfs (i + 1) dfs (acc @ [(''df'' @ str_nat (i + 1), d)]) =
        (acc @ [(''df'' @ str_nat (i + 1), d)])
        @ map (\<lambda>(j, d). (''df'' @ str_nat (j + 1), d)) (zip [i + 1..<i + 1 + length dfs] dfs)"
    using sub by (rule Cons.IH)
  then show ?case using upd by (simp add: upt_conv_Cons del: upt_Suc)
qed

lemma df_locals_eq:
  "df_locals dfs = map (\<lambda>(j, d). (''df'' @ str_nat (j + 1), d)) (zip [0..<length dfs] dfs)"
  using bind_dfs_append [of "[]" 0 dfs] by (simp add: df_locals_def)

text \<open>What a successful call went through: inversion of each function on \<open>Inr\<close>.\<close>

lemma check_items_Inr: "check_items items = Inr dfs \<Longrightarrow> items = map DataFrame dfs"
  by (induction items arbitrary: dfs rule: check_items.induct) (auto split: sum.splits)

lemma check_items_map: "check_items (map DataFrame dfs) = Inr dfs"
  by (induction dfs) simp_all

lemma get_prompt_and_tools_Inr:
  assumes "snd (get_prompt_and_tools e lb df pre suf ivs inc n extra) = Inr r"
  shows "pandas_installed e \<and> (inc = None \<or> suf = None) \<and>
     ((\<exists>d. df = DataFrame d \<and>
           r = get_single_prompt lb d pre suf ivs inc n extra) \<or>
      (\<exists>dfs. df = PyList (map DataFrame dfs) \<and>
           r = get_multi_prompt lb dfs pre suf ivs inc n extra))"
  using assms
  by (auto simp: get_prompt_and_tools_def import_pandas_def
        split: if_splits pyobj.splits sum.splits dest: check_items_Inr)

lemma get_functions_prompt_and_tools_Inr:
  assumes "snd (get_functions_prompt_and_tools e lb df pre suf ivs inc n) = Inr r"
  shows "pandas_installed e \<and> ivs = None \<and> (inc = None \<or> suf = None) \<and>
     ((\<exists>d. df = DataFrame d \<and>
           get_functions_single_prompt lb d pre suf inc n = Inr r) \<or>
      (\<exists>dfs. df = PyList (map DataFrame dfs) \<and>
           get_functions_multi_prompt lb dfs pre suf inc n = Inr r))"
  using assms
  by (auto simp: get_functions_prompt_and_tools_def import_pandas_def
        split: if_splits pyobj.splits sum.splits dest: check_items_Inr)

lemma create_Inr:
  assumes "snd (create_pandas_dataframe_agent e lb llm df a) = Inr ex"
  shows "(agent_type a = ZERO_SHOT_REACT_DESCRIPTION \<and>
          (\<exists>p tls. snd (get_prompt_and_tools e lb df (prefix a) (suffix a) (input_variables a)
                      (include_df_in_prompt a) (number_of_head_rows a) (extra_tools a)) = Inr (p, tls) \<and>
             ex = \<lparr>agent = ReactAgent llm tls p, tools = tls, executor_config = loop_config a\<rparr>)) \<or>
         (agent_type a = OPENAI_FUNCTIONS \<and>
          (\<exists>m tls. snd (get_functions_prompt_and_tools e lb df (prefix a) (suffix a) (input_variables a)
                      (include_df_in_prompt a) (number_of_head_rows a)) = Inr (m, tls) \<and>
             ex = \<lparr>agent = OpenAIFunctionsAgent llm (tls @ extra_tools a) m,
                    tools = tls @ extra_tools a, executor_config = loop_config a\<rparr>)) \<or>
         (agent_type a = ''openai-tools'' \<and>
          (\<exists>m tls. snd (get_functions_prompt_and_tools e lb df (prefix a) (suffix a) (input_variables a)
                      (include_df_in_prompt a) (number_of_head_rows a)) = Inr (m, tls) \<and>
             ex = \<lparr>agent = OpenAIToolsAgent llm (tls @ extra_tools a) m,
                    tools = tls @ extra_tools a, executor_config = loop_config a\<rparr>))"
  using assms
  by (auto simp: create_pandas_dataframe_agent_def from_agent_and_tools_def Let_def
        split: if_splits prod.splits sum.splits)

lemma get_functions_single_prompt_tools:
  "get_functions_single_prompt lb d pre suf inc n = Inr (m, tls) \<Longrightarrow>
     tls = [PythonAstREPLTool [(''df'', d)]]"
  by (auto simp: get_functions_single_prompt_def Let_def split: sum.splits)

lemma get_functions_multi_prompt_tools:
  "get_functions_multi_prompt lb dfs pre suf inc n = Inr (m, tls) \<Longrightarrow>
     tls = [PythonAstREPLTool (df_locals dfs)]"
  by (auto simp: get_functions_multi_prompt_def Let_def split: sum.splits)

lemma get_single_prompt_tools:
  "snd (get_single_prompt lb d pre suf ivs inc n extra) = PythonAstREPLTool [(''df'', d)] # extra"
  by (simp add: get_single_prompt_def Let_def split: prod.splits)

lemma get_multi_prompt_tools:
  "snd (get_multi_prompt lb dfs pre suf ivs inc n extra) = PythonAstREPLTool (df_locals dfs) # extra"
  by (simp add: get_multi_prompt_def Let_def split: prod.splits)

text \<open>
  The tool list of a successful assembly, in the three branches of the entry point.
\<close>

lemma create_tools:
  assumes "snd (create_pandas_dataframe_agent e lb llm df a) = Inr ex"
  shows "agent_tools (agent ex) = tools ex \<and>
         ((\<exists>d. df = DataFrame d \<and> tools ex = PythonAstREPLTool [(''df'', d)] # extra_tools a) \<or>
          (\<exists>dfs. df = PyList (map DataFrame dfs) \<and>
             tools ex = PythonAstREPLTool (df_locals dfs) # extra_tools a))"
proof -
  from create_Inr [OF assms] show ?thesis
  proof (elim disjE conjE exE)
    fix p tls
    assume g: "snd (get_prompt_and_tools e lb df (prefix a) (suffix a) (input_variables a)
                      (include_df_in_prompt a) (number_of_head_rows a) (extra_tools a)) = Inr (p, tls)"
      and ex: "ex = \<lparr>agent = ReactAgent llm tls p, tools = tls, executor_config = loop_config a\<rparr>"
    from get_prompt_and_tools_Inr [OF g]
      get_single_prompt_tools [of lb _ "prefix a" "suffix a" "input_variables a"
        "include_df_in_prompt a" "number_of_head_rows a" "extra_tools a"]
      get_multi_prompt_tools [of lb _ "prefix a" "suffix a" "input_variables a"
        "include_df_in_prompt a" "number_of_head_rows a" "extra_tools a"]
    show ?thesis unfolding ex by (metis agent_executor.select_convs(1,2) agent_tools.simps(1) snd_conv)
  next
    fix m tls
    assume g: "snd (get_functions_prompt_and_tools e lb df (prefix a) (suffix a) (input_variables a)
                      (include_df_in_prompt a) (number_of_head_rows a)) = Inr (m, tls)"
      and ex: "ex = \<lparr>agent = OpenAIFunctionsAgent llm (tls @ extra_tools a) m,
                    tools = tls @ extra_tools a, executor_config = loop_config a\<rparr>"
    from get_functions_prompt_and_tools_Inr [OF g] show ?thesis unfolding ex
      by (auto dest: get_functions_single_prompt_tools get_functions_multi_prompt_tools)
  next
    fix m tls
    assume g: "snd (get_functions_prompt_and_tools e lb df (prefix a) (suffix a) (input_variables a)
                      (include_df_in_prompt a) (number_of_head_rows a)) = Inr (m, tls)"
      and ex: "ex = \<lparr>agent = OpenAIToolsAgent llm (tls @ extra_tools a) m,
                    tools = tls @ extra_tools a, executor_config = loop_config a\<rparr>"
    from get_functions_prompt_and_tools_Inr [OF g] show ?thesis unfolding ex
      by (auto dest: get_functions_single_prompt_tools get_functions_multi_prompt_tools)
  qed
qed

text \<open>
  The function-call prompt functions fail only where \<^verbatim>\<open>str.format\<close> does, and with a suffix
  and no include-preview flag the system message is the prefix followed by the suffix.
\<close>

lemma get_functions_multi_prompt_error:
  "get_functions_multi_prompt lb dfs pre suf inc n = Inl err \<Longrightarrow> err = FormatError"
  by (auto simp: get_functions_multi_prompt_def format_def Let_def
        split: option.splits sum.splits if_splits)

lemma get_functions_single_prompt_error:
  "get_functions_single_prompt lb d pre suf inc n = Inl err \<Longrightarrow> err = FormatError"
  by (auto simp: get_functions_single_prompt_def format_def Let_def
        split: option.splits sum.splits if_splits)

lemma get_functions_single_prompt_suffix:
  "get_functions_single_prompt lb d pre (Some s) None n = Inr (m, tls) \<Longrightarrow>
     m = (case pre of None \<Rightarrow> PREFIX_FUNCTIONS lb | Some p \<Rightarrow> p) @ s"
  by (auto simp: get_functions_single_prompt_def truthy_def Let_def)

lemma get_functions_multi_prompt_suffix:
  "get_functions_multi_prompt lb dfs pre (Some s) None n = Inr (m, tls) \<Longrightarrow>
     \<exists>pre'. str_format lb (case pre of None \<Rightarrow> MULTI_DF_PREFIX_FUNCTIONS lb | Some p \<Rightarrow> p)
              [(''num_dfs'', str_nat (length dfs))] = Some pre' \<and> m = pre' @ s"
  by (auto simp: get_functions_multi_prompt_def truthy_def Let_def format_def
        split: option.splits sum.splits)

text \<open>
  The text-action prompt functions: which preview slot is bound, and which suffix the
  template holds.
\<close>

lemma single_prompt_df_head:
  "map_of (partial_variables (fst (get_single_prompt lb d pre suf ivs inc n extra))) ''df_head'' =
     (if ''df_head'' \<in> set (single_input_variables ivs (snd (single_suffix_to_use lb suf inc)))
      then Some (head_to_markdown lb d n) else None)"
  by (simp add: get_single_prompt_def Let_def create_prompt_def partial_def update_conv'
        split: prod.splits)

lemma multi_prompt_dfs_head:
  "map_of (partial_variables (fst (get_multi_prompt lb dfs pre suf ivs inc n extra))) ''dfs_head'' =
     (if ''dfs_head'' \<in> set (multi_input_variables ivs (snd (multi_suffix_to_use lb suf inc)))
      then Some (dfs_head lb dfs n) else None)"
  by (simp add: get_multi_prompt_def Let_def create_prompt_def partial_def update_conv'
        split: prod.splits)

lemma single_prompt_suffix:
  "template_suffix (fst (get_single_prompt lb d pre (Some s) ivs inc n extra)) = s"
  by (simp add: get_single_prompt_def Let_def create_prompt_def partial_def
        single_suffix_to_use_def split: prod.splits)

lemma multi_prompt_suffix:
  "template_suffix (fst (get_multi_prompt lb dfs pre (Some s) ivs inc n extra)) = s"
  by (simp add: get_multi_prompt_def Let_def create_prompt_def partial_def
        multi_suffix_to_use_def split: prod.splits)

text \<open>The keys and the values of \<^verbatim>\<open>df_locals\<close>, read off the closed form above.\<close>

lemma df_locals_keys:
  "map fst (df_locals dfs) = map (\<lambda>i. ''df'' @ str_nat i) [1..<length dfs + 1]"
proof -
  have "map fst (df_locals dfs) =
          map ((\<lambda>i. ''df'' @ str_nat i) \<circ> Suc \<circ> fst) (zip [0..<length dfs] dfs)"
    by (simp add: df_locals_eq comp_def case_prod_unfold)
  also have "\<dots> = map (\<lambda>i. ''df'' @ str_nat i) (map Suc (map fst (zip [0..<length dfs] dfs)))"
    by (simp only: map_map comp_assoc)
  also have "map fst (zip [0..<length dfs] dfs) = [0..<length dfs]" by simp
  also have "map Suc [0..<length dfs] = [1..<length dfs + 1]"
    by (simp add: map_Suc_upt)
  finally show ?thesis .
qed

lemma df_locals_values: "map snd (df_locals dfs) = dfs"
proof -
  have "map snd (df_locals dfs) = map snd (zip [0..<length dfs] dfs)"
    by (simp add: df_locals_eq comp_def case_prod_unfold)
  then show ?thesis by simp
qed

lemma df_locals_distinct: "distinct (map fst (df_locals dfs))"
  unfolding df_locals_keys
  by (auto simp: distinct_map inj_on_def dest: str_nat_inj)

subsection \<open>Tool bindings and the tool list\<close>

text \<open>
  Claim C1, as stated, fails for a one-element collection: the code chooses between the
  names \<^verbatim>\<open>df\<close> and \<^verbatim>\<open>df1 .. dfN\<close> by the type of the argument (\<^verbatim>\<open>isinstance(df, list)\<close>), not by
  the number of datasets, so the single dataset of a one-element list is bound to \<^verbatim>\<open>df1\<close>.
\<close>

theorem c1_counterexample:
  "map_sum id tools
     (snd (create_pandas_dataframe_agent sample_env sample_lib () (PyList [DataFrame [''r1'']])
            (sample_args\<lparr>agent_type := ''openai-tools''\<rparr>)))
   = Inr [PythonAstREPLTool [(''df1'', [''r1''])]]"
  by (simp add: entry_defs functions_defs sample_defs str_nat.simps)

text \<open>
  Claim C1, amended. On every successful assembly, for each of the three protocols, the
  first tool is the execution tool and its variable binding is determined by the shape of
  the dataset argument: a dataset passed bare is bound under exactly the key \<^verbatim>\<open>df\<close>; a
  collection of \<open>N\<close> datasets is bound under exactly the keys \<^verbatim>\<open>df1\<close>, ..., \<^verbatim>\<open>dfN\<close> (\<^verbatim>\<open>df\<close>
  followed by the decimal digits of the position), pairwise distinct, in the order of the
  collection and with the datasets of the collection as values; this includes the
  one-element collection, whose dataset is bound to \<^verbatim>\<open>df1\<close>.
\<close>

theorem c1_bindings:
  assumes "snd (create_pandas_dataframe_agent e lb llm df a) = Inr ex"
  shows "(\<exists>d. df = DataFrame d \<and> tools ex = PythonAstREPLTool [(''df'', d)] # extra_tools a) \<or>
         (\<exists>dfs bindings. df = PyList (map DataFrame dfs) \<and>
            tools ex = PythonAstREPLTool bindings # extra_tools a \<and>
            map fst bindings = map (\<lambda>i. ''df'' @ str_nat i) [1..<length dfs + 1] \<and>
            map snd bindings = dfs \<and> distinct (map fst bindings))"
  using create_tools [OF assms] df_locals_keys df_locals_values df_locals_distinct
  by blast

theorem c1_bindings_witness:
  "\<exists>ex. snd (create_pandas_dataframe_agent sample_env sample_lib ()
               (PyList [DataFrame [''r1''], DataFrame [''r2''], DataFrame [''r3'']])
               (sample_args\<lparr>agent_type := ''openai-tools''\<rparr>)) = Inr ex \<and>
         (\<exists>bindings. tools ex = [PythonAstREPLTool bindings] \<and>
            map fst bindings = [''df1'', ''df2'', ''df3''] \<and>
            map snd bindings = [[''r1''], [''r2''], [''r3'']])"
proof -
  have "\<exists>ex. snd (create_pandas_dataframe_agent sample_env sample_lib ()
               (PyList [DataFrame [''r1''], DataFrame [''r2''], DataFrame [''r3'']])
               (sample_args\<lparr>agent_type := ''openai-tools''\<rparr>)) = Inr ex"
    by (simp add: entry_defs functions_defs sample_defs str_nat.simps)
  then obtain ex where ok: "snd (create_pandas_dataframe_agent sample_env sample_lib ()
               (PyList [DataFrame [''r1''], DataFrame [''r2''], DataFrame [''r3'']])
               (sample_args\<lparr>agent_type := ''openai-tools''\<rparr>)) = Inr ex" ..
  have "\<exists>bindings. tools ex = [PythonAstREPLTool bindings] \<and>
            map fst bindings = [''df1'', ''df2'', ''df3''] \<and>
            map snd bindings = [[''r1''], [''r2''], [''r3'']]"
    using c1_bindings [OF ok]
    by (auto simp: sample_args_def default_args_def map_eq_Cons_conv upt_rec str_nat.simps
          digit_char_def)
  with ok show ?thesis by auto
qed

text \<open>
  Claim C8, as stated, fails in its last part: for the function-call protocols the extra
  tools are appended before the agent is constructed (line 361 precedes line 362, line 372
  precedes line 373), so the agent is built from the list that already holds them.
\<close>

theorem c8_counterexample:
  "map_sum id (agent_tools \<circ> agent)
     (snd (create_pandas_dataframe_agent sample_env sample_lib () (DataFrame [''r1'', ''r2''])
        (sample_args\<lparr>agent_type := OPENAI_FUNCTIONS, extra_tools := [BaseTool ''search'']\<rparr>)))
   = Inr [PythonAstREPLTool [(''df'', [''r1'', ''r2''])], BaseTool ''search'']"
  by (simp add: entry_defs functions_defs sample_defs)

text \<open>
  Claim C8, amended. On every successful assembly, for each of the three protocols, the
  tool list handed to the execution-loop controller is the dataset-bound execution tool
  followed by the caller's extra tools in their given order; the agent is constructed from
  that same list. (For the function-call protocols the extra tools are appended after the
  prompt is assembled and before the agent is constructed.)
\<close>

theorem c8_tool_order:
  assumes "snd (create_pandas_dataframe_agent e lb llm df a) = Inr ex"
  shows "\<exists>bindings. tools ex = PythonAstREPLTool bindings # extra_tools a \<and>
           agent_tools (agent ex) = PythonAstREPLTool bindings # extra_tools a"
  using create_tools [OF assms] by auto

theorem c8_tool_order_witness:
  "snd (create_pandas_dataframe_agent sample_env sample_lib ()
          (PyList [DataFrame [''r1''], DataFrame [''r2'']])
          (sample_args\<lparr>agent_type := ''openai-tools'',
             extra_tools := [BaseTool ''search'', BaseTool ''plot'']\<rparr>))
   = Inr \<lparr>agent = OpenAIToolsAgent ()
             [PythonAstREPLTool [(''df1'', [''r1'']), (''df2'', [''r2''])],
              BaseTool ''search'', BaseTool ''plot'']
             ''Use 2 dfs. Heads: r1\<newline>\<newline>r2'',
           tools = [PythonAstREPLTool [(''df1'', [''r1'']), (''df2'', [''r2''])],
              BaseTool ''search'', BaseTool ''plot''],
           executor_config = ()\<rparr> \<and>
   (\<exists>bindings.
      tools \<lparr>agent = OpenAIToolsAgent ()
             [PythonAstREPLTool [(''df1'', [''r1'']), (''df2'', [''r2''])],
              BaseTool ''search'', BaseTool ''plot'']
             ''Use 2 dfs. Heads: r1\<newline>\<newline>r2'',
           tools = [PythonAstREPLTool [(''df1'', [''r1'']), (''df2'', [''r2''])],
              BaseTool ''search'', BaseTool ''plot''],
           executor_config = ()\<rparr> = PythonAstREPLTool bindings # [BaseTool ''search'', BaseTool ''plot''])"
proof -
  have ok: "snd (create_pandas_dataframe_agent sample_env sample_lib ()
          (PyList [DataFrame [''r1''], DataFrame [''r2'']])
          (sample_args\<lparr>agent_type := ''openai-tools'',
             extra_tools := [BaseTool ''search'', BaseTool ''plot'']\<rparr>))
   = Inr \<lparr>agent = OpenAIToolsAgent ()
             [PythonAstREPLTool [(''df1'', [''r1'']), (''df2'', [''r2''])],
              BaseTool ''search'', BaseTool ''plot'']
             ''Use 2 dfs. Heads: r1\<newline>\<newline>r2'',
           tools = [PythonAstREPLTool [(''df1'', [''r1'']), (''df2'', [''r2''])],
              BaseTool ''search'', BaseTool ''plot''],
           executor_config = ()\<rparr>"
    by (simp add: entry_defs functions_defs sample_defs str_nat.simps)
  from c8_tool_order [OF ok] ok show ?thesis by simp
qed

text \<open>
  Claim C4, as stated, fails: the code has no check for emptiness. On an empty list the
  loop over the items raises nothing, and the multi-dataset prompt is assembled over zero
  datasets: the agent is constructed, with an execution tool that binds no variable and a
  prompt whose dataset count is \<^verbatim>\<open>0\<close>.
\<close>

theorem c4_counterexample:
  "snd (create_pandas_dataframe_agent sample_env sample_lib () (PyList [])
          (sample_args\<lparr>agent_type := ''openai-tools''\<rparr>))
   = Inr \<lparr>agent = OpenAIToolsAgent () [PythonAstREPLTool []] ''Use 0 dfs. Heads: '',
           tools = [PythonAstREPLTool []], executor_config = ()\<rparr>"
  by (simp add: entry_defs functions_defs sample_defs str_nat.simps)

text \<open>
  Claim C4, amended. An empty collection is not rejected by validation. Under no protocol
  and no configuration does the entry point answer it with \<open>TypeMismatch\<close>; where pandas
  can be imported and the configuration is accepted, both validating functions hand it to
  the multi-dataset assembly as a collection of zero datasets; and every successful assembly
  over it has an execution tool that binds no variable.
\<close>

theorem c4_empty_collection_accepted:
  "snd (create_pandas_dataframe_agent e lb llm (PyList []) (a :: ('d, 't, 'x) agent_args))
     \<noteq> Inl TypeMismatch \<and>
   (pandas_installed e \<longrightarrow> include_df_in_prompt a = None \<or> suffix a = None \<longrightarrow>
      snd (get_prompt_and_tools e lb (PyList []) (prefix a) (suffix a) (input_variables a)
             (include_df_in_prompt a) (number_of_head_rows a) (extra_tools a))
        = Inr (get_multi_prompt lb [] (prefix a) (suffix a) (input_variables a)
             (include_df_in_prompt a) (number_of_head_rows a) (extra_tools a)) \<and>
      (input_variables a = None \<longrightarrow>
         snd (get_functions_prompt_and_tools e lb (PyList []) (prefix a) (suffix a)
                (input_variables a) (include_df_in_prompt a) (number_of_head_rows a))
           = (get_functions_multi_prompt lb [] (prefix a) (suffix a)
                (include_df_in_prompt a) (number_of_head_rows a)
              :: error + string \<times> ('d, 't) tool list))) \<and>
   (snd (create_pandas_dataframe_agent e lb llm (PyList []) a) = Inr ex \<longrightarrow>
      tools ex = PythonAstREPLTool [] # extra_tools a)"
proof (intro conjI impI)
  show "snd (create_pandas_dataframe_agent e lb llm (PyList []) a) \<noteq> Inl TypeMismatch"
    by (auto simp: entry_defs Let_def split: prod.splits sum.splits
          dest: get_functions_multi_prompt_error)
next
  assume "pandas_installed e" "include_df_in_prompt a = None \<or> suffix a = None"
  then show "snd (get_prompt_and_tools e lb (PyList []) (prefix a) (suffix a) (input_variables a)
             (include_df_in_prompt a) (number_of_head_rows a) (extra_tools a))
        = Inr (get_multi_prompt lb [] (prefix a) (suffix a) (input_variables a)
             (include_df_in_prompt a) (number_of_head_rows a) (extra_tools a))"
    by (auto simp: get_prompt_and_tools_def import_pandas_def)
next
  assume "pandas_installed e" "include_df_in_prompt a = None \<or> suffix a = None"
    "input_variables a = None"
  then show "snd (get_functions_prompt_and_tools e lb (PyList []) (prefix a) (suffix a)
                (input_variables a) (include_df_in_prompt a) (number_of_head_rows a))
           = (get_functions_multi_prompt lb [] (prefix a) (suffix a)
                (include_df_in_prompt a) (number_of_head_rows a)
              :: error + string \<times> ('d, 't) tool list)"
    by (auto simp: get_functions_prompt_and_tools_def import_pandas_def)
next
  assume ok: "snd (create_pandas_dataframe_agent e lb llm (PyList []) a) = Inr ex"
  from create_tools [OF ok] show "tools ex = PythonAstREPLTool [] # extra_tools a"
    by (auto simp: df_locals_def)
qed

theorem c4_empty_collection_accepted_witness:
  "pandas_installed sample_env \<and>
   suffix (sample_args\<lparr>agent_type := ''openai-tools''\<rparr>) = None \<and>
   input_variables (sample_args\<lparr>agent_type := ''openai-tools''\<rparr>) = None \<and>
   snd (get_functions_prompt_and_tools sample_env sample_lib (PyList []) None None None
          (Some True) 5)
     = (get_functions_multi_prompt sample_lib [] None None (Some True) 5
        :: error + string \<times> (string list, string) tool list) \<and>
   (\<exists>ex. snd (create_pandas_dataframe_agent sample_env sample_lib () (PyList [])
                (sample_args\<lparr>agent_type := ''openai-tools''\<rparr>)) = Inr ex \<and>
         tools ex = [PythonAstREPLTool []])"
proof -
  let ?a = "sample_args\<lparr>agent_type := ''openai-tools''\<rparr>"
  have "\<exists>ex. snd (create_pandas_dataframe_agent sample_env sample_lib () (PyList []) ?a) = Inr ex"
    by (simp add: entry_defs functions_defs sample_defs str_nat.simps)
  then obtain ex
    where ok: "snd (create_pandas_dataframe_agent sample_env sample_lib () (PyList []) ?a) = Inr ex" ..
  note c4 = c4_empty_collection_accepted [of sample_env sample_lib "()" ?a ex]
  from c4 ok have t: "tools ex = [PythonAstREPLTool []]"
    by (simp add: sample_args_def default_args_def)
  from c4 have "snd (get_functions_prompt_and_tools sample_env sample_lib (PyList []) None None None
          (Some True) 5)
     = (get_functions_multi_prompt sample_lib [] None None (Some True) 5
        :: error + string \<times> (string list, string) tool list)"
    by (simp add: sample_args_def default_args_def sample_env_def)
  with ok t show ?thesis by (auto simp: sample_env_def sample_args_def default_args_def)
qed

subsection \<open>Rejected configurations\<close>

text \<open>
  Claim C2, as stated, fails: with a function-call protocol the input-variable check comes
  before the suffix check, so a call that sets a suffix, the include-preview flag and an
  input-variable list fails with \<open>UnsupportedOption\<close>, not with \<open>ConfigurationConflict\<close>.
\<close>

theorem c2_counterexample:
  "snd (create_pandas_dataframe_agent sample_env sample_lib () (DataFrame [''r1'', ''r2''])
     (sample_args\<lparr>agent_type := OPENAI_FUNCTIONS, suffix := Some ''Go.'',
        include_df_in_prompt := Some True, input_variables := Some [''input'']\<rparr>))
   = Inl UnsupportedOption"
  by (simp add: entry_defs sample_defs)

text \<open>
  Claim C2, amended. If the caller supplies a suffix and also sets the include-preview flag
  (to either value), the entry point fails and no agent is produced, for every protocol
  identifier, every dataset argument and every environment. Where pandas can be imported, the
  error is \<open>ConfigurationConflict\<close> for the text-action protocol, and for the two function-call
  protocols when no input-variable list was supplied.
\<close>

theorem c2_conflict:
  assumes "suffix a = Some s" and "include_df_in_prompt a = Some b"
  shows "(\<exists>err. snd (create_pandas_dataframe_agent e lb llm df a) = Inl err) \<and>
         (pandas_installed e \<longrightarrow>
            agent_type a = ZERO_SHOT_REACT_DESCRIPTION \<or>
            (agent_type a = OPENAI_FUNCTIONS \<or> agent_type a = ''openai-tools'') \<and>
            input_variables a = None \<longrightarrow>
            snd (create_pandas_dataframe_agent e lb llm df a) = Inl ConfigurationConflict)"
  using assms
  by (auto simp: create_pandas_dataframe_agent_def get_prompt_and_tools_def
        get_functions_prompt_and_tools_def import_pandas_def)

theorem c2_conflict_witness:
  "suffix (sample_args\<lparr>suffix := Some ''Go.'', include_df_in_prompt := Some False\<rparr>) = Some ''Go.'' \<and>
   include_df_in_prompt (sample_args\<lparr>suffix := Some ''Go.'', include_df_in_prompt := Some False\<rparr>) = Some False \<and>
   pandas_installed sample_env \<and>
   agent_type (sample_args\<lparr>suffix := Some ''Go.'', include_df_in_prompt := Some False\<rparr>) = ZERO_SHOT_REACT_DESCRIPTION \<and>
   snd (create_pandas_dataframe_agent sample_env sample_lib () (PyList [DataFrame [''r1''], DataFrame [''r2'']])
     (sample_args\<lparr>suffix := Some ''Go.'', include_df_in_prompt := Some False\<rparr>)) = Inl ConfigurationConflict"
  using c2_conflict [of "sample_args\<lparr>suffix := Some ''Go.'', include_df_in_prompt := Some False\<rparr>"
      "''Go.''" False sample_env sample_lib "()" "PyList [DataFrame [''r1''], DataFrame [''r2'']]"]
  by (simp add: sample_env_def sample_args_def default_args_def)

text \<open>
  Claim C6. For every protocol identifier other than the three known values
  (\<^verbatim>\<open>zero-shot-react-description\<close>, \<^verbatim>\<open>openai-functions\<close>, \<^verbatim>\<open>openai-tools\<close>) the entry point
  fails with \<open>UnsupportedProtocol\<close>, whatever the dataset argument and the other options are.
  The failure comes before any other step: the result holds no tool and no agent, and the
  environment is returned as it was received (pandas is not imported and its display option
  is not written).
\<close>

theorem c6_unknown_protocol:
  assumes "agent_type a \<noteq> ZERO_SHOT_REACT_DESCRIPTION"
    and "agent_type a \<noteq> OPENAI_FUNCTIONS"
    and "agent_type a \<noteq> ''openai-tools''"
  shows "create_pandas_dataframe_agent e lb llm df a = (e, Inl UnsupportedProtocol)"
  using assms by (simp add: create_pandas_dataframe_agent_def)

theorem c6_unknown_protocol_witness:
  "agent_type (sample_args\<lparr>agent_type := ''openai-multi-functions''\<rparr>) \<noteq> ZERO_SHOT_REACT_DESCRIPTION \<and>
   agent_type (sample_args\<lparr>agent_type := ''openai-multi-functions''\<rparr>) \<noteq> OPENAI_FUNCTIONS \<and>
   agent_type (sample_args\<lparr>agent_type := ''openai-multi-functions''\<rparr>) \<noteq> ''openai-tools'' \<and>
   create_pandas_dataframe_agent sample_env sample_lib () (DataFrame [''r1'', ''r2''])
     (sample_args\<lparr>agent_type := ''openai-multi-functions''\<rparr>) = (sample_env, Inl UnsupportedProtocol)"
  using c6_unknown_protocol [of "sample_args\<lparr>agent_type := ''openai-multi-functions''\<rparr>"
      sample_env sample_lib "()" "DataFrame [''r1'', ''r2'']"]
  by (simp add: ZERO_SHOT_REACT_DESCRIPTION_def OPENAI_FUNCTIONS_def)

text \<open>
  Claim C7. For the two function-call protocols (\<^verbatim>\<open>openai-functions\<close>, legacy, and
  \<^verbatim>\<open>openai-tools\<close>, modern), a call that supplies an explicit input-variable list fails with
  \<open>UnsupportedOption\<close> and produces no agent. The check is the first one after the import of
  pandas, so the statement is for an environment where pandas can be imported (otherwise the
  import itself fails first, with \<open>MissingDependency\<close>).
\<close>

theorem c7_input_variables_unsupported:
  assumes "pandas_installed e"
    and "agent_type a = OPENAI_FUNCTIONS \<or> agent_type a = ''openai-tools''"
    and "input_variables a = Some vs"
  shows "snd (create_pandas_dataframe_agent e lb llm df a) = Inl UnsupportedOption"
  using assms
  by (auto simp: create_pandas_dataframe_agent_def get_functions_prompt_and_tools_def
        import_pandas_def ZERO_SHOT_REACT_DESCRIPTION_def OPENAI_FUNCTIONS_def)

theorem c7_input_variables_unsupported_witness:
  "pandas_installed sample_env \<and>
   agent_type (sample_args\<lparr>agent_type := ''openai-tools'', input_variables := Some [''input'']\<rparr>) = ''openai-tools'' \<and>
   input_variables (sample_args\<lparr>agent_type := ''openai-tools'', input_variables := Some [''input'']\<rparr>) = Some [''input''] \<and>
   snd (create_pandas_dataframe_agent sample_env sample_lib () (DataFrame [''r1'', ''r2''])
     (sample_args\<lparr>agent_type := ''openai-tools'', input_variables := Some [''input'']\<rparr>)) = Inl UnsupportedOption"
  using c7_input_variables_unsupported [of sample_env
      "sample_args\<lparr>agent_type := ''openai-tools'', input_variables := Some [''input'']\<rparr>"
      "[''input'']" sample_lib "()" "DataFrame [''r1'', ''r2'']"]
  by (simp add: sample_env_def)

text \<open>
  Claim C9. The include-preview flag of the entry point defaults to \<^verbatim>\<open>True\<close>, a set value.
  So a call that supplies only a suffix (and a protocol among the three known ones) and
  leaves the flag at its default fails with \<open>ConfigurationConflict\<close>, for every dataset
  argument, where pandas can be imported; and whenever an assembly with a suffix succeeds,
  the flag was passed as \<^verbatim>\<open>None\<close>.
\<close>

theorem c9_default_include_conflicts:
  "include_df_in_prompt (default_args x :: ('d, 't, 'x) agent_args) = Some True \<and>
   (pandas_installed e \<longrightarrow>
      p = ZERO_SHOT_REACT_DESCRIPTION \<or> p = OPENAI_FUNCTIONS \<or> p = ''openai-tools'' \<longrightarrow>
      snd (create_pandas_dataframe_agent e lb llm df
             ((default_args x :: ('d, 't, 'x) agent_args)\<lparr>agent_type := p, suffix := Some s\<rparr>))
      = Inl ConfigurationConflict) \<and>
   (snd (create_pandas_dataframe_agent e lb llm df (a :: ('d, 't, 'x) agent_args)) = Inr ex \<longrightarrow>
      suffix a = Some s \<longrightarrow> include_df_in_prompt a = None)"
proof (intro conjI impI)
  show "include_df_in_prompt (default_args x :: ('d, 't, 'x) agent_args) = Some True"
    by (simp add: default_args_def)
next
  assume "pandas_installed e"
    and "p = ZERO_SHOT_REACT_DESCRIPTION \<or> p = OPENAI_FUNCTIONS \<or> p = ''openai-tools''"
  then show "snd (create_pandas_dataframe_agent e lb llm df
             ((default_args x :: ('d, 't, 'x) agent_args)\<lparr>agent_type := p, suffix := Some s\<rparr>))
      = Inl ConfigurationConflict"
    by (auto simp: create_pandas_dataframe_agent_def get_prompt_and_tools_def
          get_functions_prompt_and_tools_def import_pandas_def default_args_def)
next
  assume ok: "snd (create_pandas_dataframe_agent e lb llm df a) = Inr ex"
    and s: "suffix a = Some s"
  from create_Inr [OF ok] have "include_df_in_prompt a = None \<or> suffix a = None"
    by (auto dest!: get_prompt_and_tools_Inr get_functions_prompt_and_tools_Inr)
  with s show "include_df_in_prompt a = None" by simp
qed

theorem c9_default_include_conflicts_witness:
  "include_df_in_prompt (default_args () :: (string list, string, unit) agent_args) = Some True \<and>
   pandas_installed sample_env \<and>
   snd (create_pandas_dataframe_agent sample_env sample_lib () (DataFrame [''r1'', ''r2''])
          ((default_args () :: (string list, string, unit) agent_args)
             \<lparr>agent_type := ''openai-tools'', suffix := Some ''Go.''\<rparr>))
     = Inl ConfigurationConflict \<and>
   snd (create_pandas_dataframe_agent sample_env sample_lib () (DataFrame [''r1'', ''r2''])
          (sample_args\<lparr>suffix := Some ''Go.'', include_df_in_prompt := None\<rparr>))
     = Inr \<lparr>agent = ReactAgent () [PythonAstREPLTool [(''df'', [''r1'', ''r2''])]]
               \<lparr>template_tools = [PythonAstREPLTool [(''df'', [''r1'', ''r2''])]],
                template_prefix = ''Use df. '', template_suffix = ''Go.'',
                open_variables = [''input'', ''agent_scratchpad''],
                partial_variables = [(''df_head'', ''r1|r2'')]\<rparr>,
             tools = [PythonAstREPLTool [(''df'', [''r1'', ''r2''])]], executor_config = ()\<rparr> \<and>
   include_df_in_prompt (sample_args\<lparr>suffix := Some ''Go.'', include_df_in_prompt := None\<rparr>) = None"
proof -
  have ok: "snd (create_pandas_dataframe_agent sample_env sample_lib () (DataFrame [''r1'', ''r2''])
          (sample_args\<lparr>suffix := Some ''Go.'', include_df_in_prompt := None\<rparr>))
     = Inr \<lparr>agent = ReactAgent () [PythonAstREPLTool [(''df'', [''r1'', ''r2''])]]
               \<lparr>template_tools = [PythonAstREPLTool [(''df'', [''r1'', ''r2''])]],
                template_prefix = ''Use df. '', template_suffix = ''Go.'',
                open_variables = [''input'', ''agent_scratchpad''],
                partial_variables = [(''df_head'', ''r1|r2'')]\<rparr>,
             tools = [PythonAstREPLTool [(''df'', [''r1'', ''r2''])]], executor_config = ()\<rparr>"
    by (simp add: entry_defs prompt_defs sample_defs)
  show ?thesis
    using c9_default_include_conflicts [of "()" sample_env "''openai-tools''" sample_lib "()"
        "DataFrame [''r1'', ''r2'']" "''Go.''"
        "sample_args\<lparr>suffix := Some ''Go.'', include_df_in_prompt := None\<rparr>"]
      ok
    by (simp add: sample_env_def)
qed

subsection \<open>Suffix, input variables and preview\<close>

text \<open>
  Claim C3, as stated, fails in its second part, the forced preview. With a function-call
  protocol a successful call with a suffix has the flag at \<^verbatim>\<open>None\<close>, and the suffix is
  appended as it is: its \<^verbatim>\<open>{df_head}\<close> slot is not filled and no preview is rendered (first
  conjunct). With the text-action protocol the preview is bound only if the resolved
  input-variable list names it, and an explicit list need not (second conjunct).
\<close>

theorem c3_counterexample:
  "snd (create_pandas_dataframe_agent sample_env sample_lib () (DataFrame [''r1'', ''r2''])
          (sample_args\<lparr>agent_type := OPENAI_FUNCTIONS, suffix := Some '' Head: {df_head}'',
             include_df_in_prompt := None\<rparr>))
   = Inr \<lparr>agent = OpenAIFunctionsAgent () [PythonAstREPLTool [(''df'', [''r1'', ''r2''])]]
                     ''Use df. Head: {df_head}'',
           tools = [PythonAstREPLTool [(''df'', [''r1'', ''r2''])]], executor_config = ()\<rparr> \<and>
   snd (create_pandas_dataframe_agent sample_env sample_lib () (DataFrame [''r1'', ''r2''])
          (sample_args\<lparr>suffix := Some ''Head: {df_head} Q: {input} {agent_scratchpad}'',
             include_df_in_prompt := None,
             input_variables := Some [''input'', ''agent_scratchpad'']\<rparr>))
   = Inr \<lparr>agent = ReactAgent () [PythonAstREPLTool [(''df'', [''r1'', ''r2''])]]
             \<lparr>template_tools = [PythonAstREPLTool [(''df'', [''r1'', ''r2''])]],
              template_prefix = ''Use df. '',
              template_suffix = ''Head: {df_head} Q: {input} {agent_scratchpad}'',
              open_variables = [''input'', ''agent_scratchpad''],
              partial_variables = []\<rparr>,
           tools = [PythonAstREPLTool [(''df'', [''r1'', ''r2''])]], executor_config = ()\<rparr>"
  by (simp add: entry_defs prompt_defs functions_defs sample_defs)

text \<open>
  Claim C3, amended. Whenever a suffix is supplied and assembly succeeds, the caller's
  suffix text is used verbatim: for the text-action protocol it is the suffix of the
  template; for the function-call protocols the system message is the prefix (for a
  collection, the prefix with the dataset count substituted) followed by exactly that text.
  For the text-action protocol the dataset preview (\<^verbatim>\<open>df_head\<close> for a bare dataset,
  \<^verbatim>\<open>dfs_head\<close> for a collection) is bound into the prompt when no explicit input-variable
  list is supplied, and with an explicit list exactly when the list names it.
\<close>

theorem c3_suffix_verbatim:
  assumes ok: "snd (create_pandas_dataframe_agent e lb llm df a) = Inr ex"
    and suf: "suffix a = Some s"
  shows
    "(\<exists>d tls p. agent_type a = ZERO_SHOT_REACT_DESCRIPTION \<and> df = DataFrame d \<and>
        agent ex = ReactAgent llm tls p \<and> template_suffix p = s \<and>
        map_of (partial_variables p) ''df_head'' =
          (case input_variables a of
             None \<Rightarrow> Some (head_to_markdown lb d (number_of_head_rows a))
           | Some vs \<Rightarrow>
               if ''df_head'' \<in> set vs
               then Some (head_to_markdown lb d (number_of_head_rows a)) else None)) \<or>
     (\<exists>dfs tls p. agent_type a = ZERO_SHOT_REACT_DESCRIPTION \<and> df = PyList (map DataFrame dfs) \<and>
        agent ex = ReactAgent llm tls p \<and> template_suffix p = s \<and>
        map_of (partial_variables p) ''dfs_head'' =
          (case input_variables a of
             None \<Rightarrow> Some (dfs_head lb dfs (number_of_head_rows a))
           | Some vs \<Rightarrow>
               if ''dfs_head'' \<in> set vs
               then Some (dfs_head lb dfs (number_of_head_rows a)) else None)) \<or>
     (\<exists>d tls m. df = DataFrame d \<and>
        (agent_type a = OPENAI_FUNCTIONS \<and> agent ex = OpenAIFunctionsAgent llm tls m \<or>
         agent_type a = ''openai-tools'' \<and> agent ex = OpenAIToolsAgent llm tls m) \<and>
        m = (case prefix a of None \<Rightarrow> PREFIX_FUNCTIONS lb | Some p \<Rightarrow> p) @ s) \<or>
     (\<exists>dfs tls m pre'. df = PyList (map DataFrame dfs) \<and>
        (agent_type a = OPENAI_FUNCTIONS \<and> agent ex = OpenAIFunctionsAgent llm tls m \<or>
         agent_type a = ''openai-tools'' \<and> agent ex = OpenAIToolsAgent llm tls m) \<and>
        str_format lb (case prefix a of None \<Rightarrow> MULTI_DF_PREFIX_FUNCTIONS lb | Some p \<Rightarrow> p)
          [(''num_dfs'', str_nat (length dfs))] = Some pre' \<and>
        m = pre' @ s)"
    (is "?A \<or> ?B \<or> ?C \<or> ?D")
proof -
  have single: "\<And>d. template_suffix (fst (get_single_prompt lb d (prefix a) (suffix a)
        (input_variables a) (include_df_in_prompt a) (number_of_head_rows a) (extra_tools a))) = s"
    unfolding suf by (rule single_prompt_suffix)
  have multi: "\<And>dfs. template_suffix (fst (get_multi_prompt lb dfs (prefix a) (suffix a)
        (input_variables a) (include_df_in_prompt a) (number_of_head_rows a) (extra_tools a))) = s"
    unfolding suf by (rule multi_prompt_suffix)
  have single_head: "\<And>d.
      map_of (partial_variables (fst (get_single_prompt lb d (prefix a) (suffix a)
        (input_variables a) (include_df_in_prompt a) (number_of_head_rows a) (extra_tools a))))
        ''df_head'' =
      (case input_variables a of
         None \<Rightarrow> Some (head_to_markdown lb d (number_of_head_rows a))
       | Some vs \<Rightarrow>
           if ''df_head'' \<in> set vs
           then Some (head_to_markdown lb d (number_of_head_rows a)) else None)"
    by (simp add: single_prompt_df_head suf single_input_variables_def single_suffix_to_use_def
          split: option.splits)
  have multi_head: "\<And>dfs.
      map_of (partial_variables (fst (get_multi_prompt lb dfs (prefix a) (suffix a)
        (input_variables a) (include_df_in_prompt a) (number_of_head_rows a) (extra_tools a))))
        ''dfs_head'' =
      (case input_variables a of
         None \<Rightarrow> Some (dfs_head lb dfs (number_of_head_rows a))
       | Some vs \<Rightarrow>
           if ''dfs_head'' \<in> set vs
           then Some (dfs_head lb dfs (number_of_head_rows a)) else None)"
    by (simp add: multi_prompt_dfs_head suf multi_input_variables_def multi_suffix_to_use_def
          split: option.splits)
  have fcall': ?thesis
    if g: "snd (get_functions_prompt_and_tools e lb df (prefix a) (suffix a) (input_variables a)
                 (include_df_in_prompt a) (number_of_head_rows a)) = Inr (m, tls)"
      and ag: "agent_type a = OPENAI_FUNCTIONS \<and> agent ex = OpenAIFunctionsAgent llm tls' m \<or>
               agent_type a = ''openai-tools'' \<and> agent ex = OpenAIToolsAgent llm tls' m"
    for m tls tls'
  proof -
    from get_functions_prompt_and_tools_Inr [OF g] suf
    have inc: "include_df_in_prompt a = None" by simp
    from get_functions_prompt_and_tools_Inr [OF g]
    have "(\<exists>d. df = DataFrame d \<and>
             get_functions_single_prompt lb d (prefix a) (suffix a) (include_df_in_prompt a)
               (number_of_head_rows a) = Inr (m, tls)) \<or>
          (\<exists>dfs. df = PyList (map DataFrame dfs) \<and>
             get_functions_multi_prompt lb dfs (prefix a) (suffix a) (include_df_in_prompt a)
               (number_of_head_rows a) = Inr (m, tls))"
      by blast
    then show ?thesis
    proof (elim conjE disjE exE)
      fix d
      assume df: "df = DataFrame d"
        and r: "get_functions_single_prompt lb d (prefix a) (suffix a) (include_df_in_prompt a)
               (number_of_head_rows a) = Inr (m, tls)"
      from r have "m = (case prefix a of None \<Rightarrow> PREFIX_FUNCTIONS lb | Some p \<Rightarrow> p) @ s"
        unfolding suf inc by (rule get_functions_single_prompt_suffix)
      with df ag have "?C" by auto
      then show ?thesis by (intro disjI2 disjI1)
    next
      fix dfs
      assume df: "df = PyList (map DataFrame dfs)"
        and r: "get_functions_multi_prompt lb dfs (prefix a) (suffix a) (include_df_in_prompt a)
               (number_of_head_rows a) = Inr (m, tls)"
      from r have "\<exists>pre'. str_format lb
              (case prefix a of None \<Rightarrow> MULTI_DF_PREFIX_FUNCTIONS lb | Some p \<Rightarrow> p)
              [(''num_dfs'', str_nat (length dfs))] = Some pre' \<and> m = pre' @ s"
        unfolding suf inc by (rule get_functions_multi_prompt_suffix)
      with df ag have "?D" by (auto intro!: exI [of _ dfs])
      then show ?thesis by (intro disjI2)
    qed
  qed
  from create_Inr [OF ok] show ?thesis
  proof (elim disjE conjE exE)
    fix p tls
    assume t: "agent_type a = ZERO_SHOT_REACT_DESCRIPTION"
      and g: "snd (get_prompt_and_tools e lb df (prefix a) (suffix a) (input_variables a)
                (include_df_in_prompt a) (number_of_head_rows a) (extra_tools a)) = Inr (p, tls)"
      and ex: "ex = \<lparr>agent = ReactAgent llm tls p, tools = tls, executor_config = loop_config a\<rparr>"
    have ag: "agent ex = ReactAgent llm tls p" by (simp add: ex)
    from get_prompt_and_tools_Inr [OF g]
    have "(\<exists>d. df = DataFrame d \<and>
             (p, tls) = get_single_prompt lb d (prefix a) (suffix a) (input_variables a)
               (include_df_in_prompt a) (number_of_head_rows a) (extra_tools a)) \<or>
          (\<exists>dfs. df = PyList (map DataFrame dfs) \<and>
             (p, tls) = get_multi_prompt lb dfs (prefix a) (suffix a) (input_variables a)
               (include_df_in_prompt a) (number_of_head_rows a) (extra_tools a))"
      by blast
    then show ?thesis
    proof (elim conjE disjE exE)
      fix d
      assume df: "df = DataFrame d"
        and r: "(p, tls) = get_single_prompt lb d (prefix a) (suffix a) (input_variables a)
               (include_df_in_prompt a) (number_of_head_rows a) (extra_tools a)"
      from r have p: "p = fst (get_single_prompt lb d (prefix a) (suffix a) (input_variables a)
               (include_df_in_prompt a) (number_of_head_rows a) (extra_tools a))"
        by (metis fst_conv)
      have "?A" using t df ag single [of d] single_head [of d] unfolding p by simp
      then show ?thesis by (rule disjI1)
    next
      fix dfs
      assume df: "df = PyList (map DataFrame dfs)"
        and r: "(p, tls) = get_multi_prompt lb dfs (prefix a) (suffix a) (input_variables a)
               (include_df_in_prompt a) (number_of_head_rows a) (extra_tools a)"
      from r have p: "p = fst (get_multi_prompt lb dfs (prefix a) (suffix a) (input_variables a)
               (include_df_in_prompt a) (number_of_head_rows a) (extra_tools a))"
        by (metis fst_conv)
      have "?B" using t df ag multi [of dfs] multi_head [of dfs] unfolding p
        by (auto intro!: exI [of _ dfs])
      then show ?thesis by (intro disjI2 disjI1)
    qed
  next
    fix m tls
    assume g: "snd (get_functions_prompt_and_tools e lb df (prefix a) (suffix a) (input_variables a)
                 (include_df_in_prompt a) (number_of_head_rows a)) = Inr (m, tls)"
      and ex: "ex = \<lparr>agent = OpenAIFunctionsAgent llm (tls @ extra_tools a) m,
                    tools = tls @ extra_tools a, executor_config = loop_config a\<rparr>"
    assume t: "agent_type a = OPENAI_FUNCTIONS"
    have "agent ex = OpenAIFunctionsAgent llm (tls @ extra_tools a) m" by (simp add: ex)
    with t have "agent_type a = OPENAI_FUNCTIONS \<and>
                   agent ex = OpenAIFunctionsAgent llm (tls @ extra_tools a) m \<or>
                 agent_type a = ''openai-tools'' \<and>
                   agent ex = OpenAIToolsAgent llm (tls @ extra_tools a) m"
      by simp
    with g show ?thesis by (rule fcall')
  next
    fix m tls
    assume g: "snd (get_functions_prompt_and_tools e lb df (prefix a) (suffix a) (input_variables a)
                 (include_df_in_prompt a) (number_of_head_rows a)) = Inr (m, tls)"
      and ex: "ex = \<lparr>agent = OpenAIToolsAgent llm (tls @ extra_tools a) m,
                    tools = tls @ extra_tools a, executor_config = loop_config a\<rparr>"
    assume t: "agent_type a = ''openai-tools''"
    have "agent ex = OpenAIToolsAgent llm (tls @ extra_tools a) m" by (simp add: ex)
    with t have "agent_type a = OPENAI_FUNCTIONS \<and>
                   agent ex = OpenAIFunctionsAgent llm (tls @ extra_tools a) m \<or>
                 agent_type a = ''openai-tools'' \<and>
                   agent ex = OpenAIToolsAgent llm (tls @ extra_tools a) m"
      by simp
    with g show ?thesis by (rule fcall')
  qed
qed

theorem c3_suffix_verbatim_witness:
  "\<exists>ex. snd (create_pandas_dataframe_agent sample_env sample_lib () (DataFrame [''r1'', ''r2''])
               (sample_args\<lparr>suffix := Some ''Head: {df_head} Q: {input} {agent_scratchpad}'',
                  include_df_in_prompt := None\<rparr>)) = Inr ex \<and>
         suffix (sample_args\<lparr>suffix := Some ''Head: {df_head} Q: {input} {agent_scratchpad}'',
                  include_df_in_prompt := None\<rparr>)
           = Some ''Head: {df_head} Q: {input} {agent_scratchpad}'' \<and>
         (\<exists>tls p. agent ex = ReactAgent () tls p \<and>
            template_suffix p = ''Head: {df_head} Q: {input} {agent_scratchpad}'' \<and>
            map_of (partial_variables p) ''df_head'' = Some ''r1|r2'')"
proof -
  let ?a = "sample_args\<lparr>suffix := Some ''Head: {df_head} Q: {input} {agent_scratchpad}'',
                  include_df_in_prompt := None\<rparr>"
  have "\<exists>ex. snd (create_pandas_dataframe_agent sample_env sample_lib ()
                    (DataFrame [''r1'', ''r2'']) ?a) = Inr ex"
    by (simp add: entry_defs prompt_defs sample_defs)
  then obtain ex where ok: "snd (create_pandas_dataframe_agent sample_env sample_lib ()
                    (DataFrame [''r1'', ''r2'']) ?a) = Inr ex" ..
  have suf: "suffix ?a = Some ''Head: {df_head} Q: {input} {agent_scratchpad}''" by simp
  have "\<exists>tls p. agent ex = ReactAgent () tls p \<and>
            template_suffix p = ''Head: {df_head} Q: {input} {agent_scratchpad}'' \<and>
            map_of (partial_variables p) ''df_head'' = Some ''r1|r2''"
    using c3_suffix_verbatim [OF ok suf]
    by (auto simp: sample_args_def default_args_def sample_lib_def
          ZERO_SHOT_REACT_DESCRIPTION_def OPENAI_FUNCTIONS_def)
  with ok suf show ?thesis by auto
qed

text \<open>
  Claim C5, as stated, fails in the multi-dataset case without preview: \<^verbatim>\<open>num_dfs\<close> belongs
  to the multi-dataset default whether or not the preview is included.
\<close>

theorem c5_counterexample:
  "multi_input_variables None (snd (multi_suffix_to_use sample_lib None (Some False)))
   = [''input'', ''agent_scratchpad'', ''num_dfs'']"
  by (simp add: multi_input_variables_def multi_suffix_to_use_def truthy_def)

text \<open>
  Claim C5, amended. For the text-action protocol, when the caller supplies no
  input-variable list, the resolved list is \<^verbatim>\<open>["input", "agent_scratchpad", "num_dfs"]\<close> in
  the multi-dataset case and \<^verbatim>\<open>["input", "agent_scratchpad"]\<close> in the single-dataset case,
  extended with \<^verbatim>\<open>"dfs_head"\<close> (multi) or \<^verbatim>\<open>"df_head"\<close> (single) exactly when the preview is
  included, that is, when a suffix is supplied or the include-preview flag is \<^verbatim>\<open>True\<close>.
\<close>

theorem c5_default_input_variables:
  "multi_input_variables None (snd (multi_suffix_to_use lb suf inc)) =
     [''input'', ''agent_scratchpad'', ''num_dfs'']
     @ (if suf = None \<and> inc \<noteq> Some True then [] else [''dfs_head'']) \<and>
   single_input_variables None (snd (single_suffix_to_use lb suf inc)) =
     [''input'', ''agent_scratchpad'']
     @ (if suf = None \<and> inc \<noteq> Some True then [] else [''df_head''])"
  by (simp add: multi_input_variables_def multi_suffix_to_use_def single_input_variables_def
        single_suffix_to_use_def truthy_def split: option.splits)

theorem c5_default_input_variables_witness:
  "multi_input_variables None (snd (multi_suffix_to_use sample_lib None (Some True))) =
     [''input'', ''agent_scratchpad'', ''num_dfs'', ''dfs_head''] \<and>
   single_input_variables None (snd (single_suffix_to_use sample_lib None (Some True))) =
     [''input'', ''agent_scratchpad'', ''df_head''] \<and>
   multi_input_variables None (snd (multi_suffix_to_use sample_lib None (Some False))) =
     [''input'', ''agent_scratchpad'', ''num_dfs''] \<and>
   single_input_variables None (snd (single_suffix_to_use sample_lib None None)) =
     [''input'', ''agent_scratchpad'']"
  using c5_default_input_variables [of sample_lib None "Some True"]
    c5_default_input_variables [of sample_lib None "Some False"]
    c5_default_input_variables [of sample_lib None None]
  by simp

text \<open>
  Claim C10. For the text-action protocol, the dataset preview is rendered and bound as a
  partial variable of the prompt exactly when \<^verbatim>\<open>df_head\<close> (single dataset) or \<^verbatim>\<open>dfs_head\<close>
  (several) is a member of the resolved input-variable list. In particular, with an explicit
  list that omits the name, no preview is bound even when the include-preview flag is
  \<^verbatim>\<open>True\<close>.
\<close>

theorem c10_preview_bound_iff_listed:
  "(map_of (partial_variables (fst (get_single_prompt lb d pre suf ivs inc n extra))) ''df_head'' =
     (if ''df_head'' \<in> set (single_input_variables ivs (snd (single_suffix_to_use lb suf inc)))
      then Some (head_to_markdown lb d n) else None)) \<and>
   (map_of (partial_variables (fst (get_multi_prompt lb dfs pre suf ivs inc n extra))) ''dfs_head'' =
     (if ''dfs_head'' \<in> set (multi_input_variables ivs (snd (multi_suffix_to_use lb suf inc)))
      then Some (dfs_head lb dfs n) else None)) \<and>
   (''df_head'' \<notin> set vs \<longrightarrow>
      map_of (partial_variables
        (fst (get_single_prompt lb d pre None (Some vs) (Some True) n extra))) ''df_head'' = None) \<and>
   (''dfs_head'' \<notin> set vs \<longrightarrow>
      map_of (partial_variables
        (fst (get_multi_prompt lb dfs pre None (Some vs) (Some True) n extra))) ''dfs_head'' = None)"
  by (simp add: single_prompt_df_head multi_prompt_dfs_head single_input_variables_def
        multi_input_variables_def)

theorem c10_preview_bound_iff_listed_witness:
  "''df_head'' \<notin> set [''input'', ''agent_scratchpad''] \<and>
   map_of (partial_variables (fst (get_single_prompt sample_lib [''r1'', ''r2''] None None
      (Some [''input'', ''agent_scratchpad'']) (Some True) 5 ([] :: (string list, string) tool list)))) ''df_head'' = None \<and>
   ''dfs_head'' \<notin> set [''input'', ''agent_scratchpad''] \<and>
   map_of (partial_variables (fst (get_multi_prompt sample_lib [[''r1''], [''r2'']] None None
      (Some [''input'', ''agent_scratchpad'']) (Some True) 5 ([] :: (string list, string) tool list)))) ''dfs_head'' = None"
  using c10_preview_bound_iff_listed [of sample_lib "[''r1'', ''r2'']" None None
      "Some [''input'', ''agent_scratchpad'']" "Some True" 5 "[] :: (string list, string) tool list"
      "[[''r1''], [''r2'']]"
      "[''input'', ''agent_scratchpad'']", THEN conjunct2, THEN conjunct2]
  by simp

end
